theory Spec2Isabelle
  imports Complex_Main
begin

section \<open>AircraftConflict: pairwise conflict and violation detection\<close>

text \<open>
  A shallow embedding of \<^verbatim>\<open>src/assets/scripts/aircraft/AircraftConflict.js\<close>.
  JavaScript numbers are modelled as real numbers (no rounding, no NaN); the one place
  where the source divides, the quotient is a value of the type \<open>number\<close> below, so that
  a zero divisor is visible in the model. The objects the tracker reads and mutates
  (aircraft, airport, score, log) live in a record \<open>world\<close>; every method takes the
  world and the tracker and returns both.
\<close>

subsection \<open>Data model\<close>

type_synonym vec = "real \<times> real"

text \<open>A reference to an aircraft object, and the identity of a runway object.\<close>

type_synonym handle = nat
type_synonym runway = nat

text \<open>
  The aircraft collaborator, as the tracker reads it. The methods \<^verbatim>\<open>isLanded()\<close>,
  \<^verbatim>\<open>isTaxiing()\<close>, \<^verbatim>\<open>isVisible()\<close>, \<^verbatim>\<open>isPrecisionGuided()\<close> and \<^verbatim>\<open>getCallsign()\<close>
  are fields holding what the call returns. \<open>None\<close> is \<^verbatim>\<open>null\<close>.
\<close>

record aircraft_model =
  position :: vec
  ac_altitude :: real
  groundTrack :: real
  rwy_dep :: "string option"
  rwy_arr :: "string option"
  takeoffTime :: real
  hit :: bool
  getCallsign :: string
  isLanded :: bool
  isTaxiing :: bool
  isVisible :: bool
  isPrecisionGuided :: bool

record runwayRelationship =
  parallel :: bool
  lateral_dist :: real

text \<open>
  The airport collaborator. \<open>runways\<close> is the list of runway pairs (primary and
  secondary end), \<open>getRunway\<close> the lookup by identifier (\<open>None\<close> when nothing matches),
  \<open>metadata_rwy\<close> the table \<^verbatim>\<open>metadata.rwy\<close>, a dictionary of dictionaries.
\<close>

record airport_model =
  elevation :: real
  runways :: "(runway \<times> runway) list"
  getRunway :: "string option \<Rightarrow> runway option"
  metadata_rwy :: "string \<rightharpoonup> (string \<rightharpoonup> runwayRelationship)"

text \<open>Calls into collaborators whose effect the tracker never reads back.\<close>

datatype event =
    UiLog bool string
  | AddConflict handle handle
  | RemoveConflict handle handle
  | RemoveQueue runway handle bool

record world =
  aircraft_of :: "handle \<Rightarrow> aircraft_model"
  airport_get :: airport_model
  game_time :: real
  score_hit :: int
  score_warning :: int
  events :: "event list"

record tracker =
  aircraft :: "handle \<times> handle"
  distance :: real
  distance_delta :: real
  altitude :: real
  collided :: bool
  conflicts :: "string \<rightharpoonup> bool"
  violations :: "string \<rightharpoonup> bool"

datatype error = TypeError

text \<open>A call either returns or throws; both leave a state behind.\<close>

datatype 's outcome = Returns 's | Throws error 's

text \<open>
  The result of a JavaScript division: finite, or what a zero divisor gives
  (the divisor taken as \<open>+0\<close>).
\<close>

datatype number = Finite real | PosInfinity | NegInfinity | NaN

definition js_div :: "real \<Rightarrow> real \<Rightarrow> number" where
  "js_div x y =
     (if y \<noteq> 0 then Finite (x / y)
      else if 0 < x then PosInfinity
      else if x < 0 then NegInfinity
      else NaN)"

fun js_neg :: "number \<Rightarrow> bool" where
  "js_neg (Finite r) = (r < 0)"
| "js_neg NegInfinity = True"
| "js_neg PosInfinity = False"
| "js_neg NaN = False"

text \<open>\<^verbatim>\<open>if (obj.key)\<close>: a missing key reads as \<^verbatim>\<open>undefined\<close>, which is falsy.\<close>

definition truthy :: "(string \<rightharpoonup> bool) \<Rightarrow> string \<Rightarrow> bool" where
  "truthy m k = (m k = Some True)"

text \<open>\<^verbatim>\<open>obj[key]\<close> turns the key into a property name; \<^verbatim>\<open>null\<close> becomes "null".\<close>

definition propertyKey :: "string option \<Rightarrow> string" where
  "propertyKey k = (case k of None \<Rightarrow> ''null'' | Some s \<Rightarrow> s)"

subsection \<open>Helpers that the source imports\<close>

text \<open>Modelled from the spec: \<^verbatim>\<open>vsub\<close> of \<^verbatim>\<open>math/vector\<close>, the difference of two
  position vectors.\<close>

definition vsub :: "vec \<Rightarrow> vec \<Rightarrow> vec" where
  "vsub v1 v2 = (fst v1 - fst v2, snd v1 - snd v2)"

text \<open>Modelled from the spec: \<^verbatim>\<open>vlen\<close> of \<^verbatim>\<open>math/vector\<close>, the Euclidean length, so
  that \<open>vlen (vsub p q)\<close> is the Euclidean horizontal distance.\<close>

definition vlen :: "vec \<Rightarrow> real" where
  "vlen v = sqrt (fst v * fst v + snd v * snd v)"

text \<open>Modelled from the spec: \<^verbatim>\<open>km_ft\<close>, the global conversion of kilometres to feet
  (one foot is 0.0003048 km).\<close>

definition km_ft :: "real \<Rightarrow> real" where
  "km_ft km = km / 0.0003048"

text \<open>Modelled from the spec: \<^verbatim>\<open>degreesToRadians\<close> of \<^verbatim>\<open>utilities/unitConverters\<close>.\<close>

definition degreesToRadians :: "real \<Rightarrow> real" where
  "degreesToRadians d = d * pi / 180"

text \<open>Modelled from the spec: \<^verbatim>\<open>angle_offset\<close>, the global function giving the signed
  angular difference of two headings, normalised to one half turn either way, so that
  its absolute value is the angular difference normalised to [0, 180] degrees.\<close>

definition angle_offset :: "real \<Rightarrow> real \<Rightarrow> real" where
  "angle_offset a b =
     (let d = (a - b) - 2 * pi * of_int \<lfloor>(a - b) / (2 * pi)\<rfloor>
      in if pi < d then d - 2 * pi else d)"

text \<open>Modelled from the spec: \<^verbatim>\<open>vturn\<close>, the global function giving the unit vector of a
  track; a heading is measured clockwise from north (the y axis).\<close>

definition vturn :: "real \<Rightarrow> vec" where
  "vturn radians = (sin radians, cos radians)"

subsection \<open>Effects on the world\<close>

definition emit :: "event \<Rightarrow> world \<Rightarrow> world" where
  "emit e w = w\<lparr>events := events w @ [e]\<rparr>"

definition ui_log :: "bool \<Rightarrow> string \<Rightarrow> world \<Rightarrow> world" where
  "ui_log b msg w = emit (UiLog b msg) w"

definition set_hit :: "handle \<Rightarrow> world \<Rightarrow> world" where
  "set_hit a w = w\<lparr>aircraft_of := (aircraft_of w)(a := (aircraft_of w a)\<lparr>hit := True\<rparr>)\<rparr>"

text \<open>The loop over \<^verbatim>\<open>airport_get().runways\<close> in \<^verbatim>\<open>checkCollision\<close>.\<close>

fun removeFromQueues :: "(runway \<times> runway) list \<Rightarrow> handle \<Rightarrow> handle \<Rightarrow> world \<Rightarrow> world" where
  "removeFromQueues [] a0 a1 w = w"
| "removeFromQueues (rwy # rest) a0 a1 w =
     removeFromQueues rest a0 a1
       (emit (RemoveQueue (snd rwy) a1 True)
         (emit (RemoveQueue (snd rwy) a0 True)
           (emit (RemoveQueue (fst rwy) a1 True)
             (emit (RemoveQueue (fst rwy) a0 True) w))))"

subsection \<open>The methods of the tracker\<close>

text \<open>\<^verbatim>\<open>this.aircraft[0]\<close> and \<^verbatim>\<open>this.aircraft[1]\<close>, read through the reference.\<close>

definition aircraft0 :: "world \<Rightarrow> tracker \<Rightarrow> aircraft_model" where
  "aircraft0 w t = aircraft_of w (fst (aircraft t))"

definition aircraft1 :: "world \<Rightarrow> tracker \<Rightarrow> aircraft_model" where
  "aircraft1 w t = aircraft_of w (snd (aircraft t))"

definition remove :: "world \<times> tracker \<Rightarrow> world \<times> tracker" where
  "remove s =
     (case s of (w, t) \<Rightarrow>
        (emit (RemoveConflict (snd (aircraft t)) (fst (aircraft t)))
           (emit (RemoveConflict (fst (aircraft t)) (snd (aircraft t))) w), t))"

text \<open>The condition of the second \<^verbatim>\<open>if\<close> of \<^verbatim>\<open>checkCollision\<close>.\<close>

definition collisionCondition :: "world \<Rightarrow> tracker \<Rightarrow> bool" where
  "collisionCondition w t =
     ((distance t < 0.05 \<and> altitude t < 160) \<and>
      (isVisible (aircraft0 w t) \<and> isVisible (aircraft1 w t)))"

definition checkCollision :: "world \<times> tracker \<Rightarrow> world \<times> tracker" where
  "checkCollision s =
     (case s of (w, t) \<Rightarrow>
        if isLanded (aircraft0 w t) \<or> isLanded (aircraft1 w t) then (w, t)
        else if collisionCondition w t then
          (let t' = t\<lparr>collided := True\<rparr>;
               w1 = ui_log True
                      (getCallsign (aircraft0 w t) @ '' collided with ''
                        @ getCallsign (aircraft1 w t)) w;
               w2 = w1\<lparr>score_hit := score_hit w1 + 1\<rparr>;
               w3 = set_hit (fst (aircraft t)) w2;
               w4 = set_hit (snd (aircraft t)) w3;
               w5 = removeFromQueues (runways (airport_get w4))
                      (fst (aircraft t)) (snd (aircraft t)) w4
           in (w5, t'))
        else (w, t))"

text \<open>The condition of the \<^verbatim>\<open>if\<close> of \<^verbatim>\<open>checkRunwayCollision\<close>; \<^verbatim>\<open>!=\<close> and \<^verbatim>\<open>===\<close>
  are equality of the optional values.\<close>

definition runwayCollisionCondition :: "world \<Rightarrow> tracker \<Rightarrow> bool" where
  "runwayCollisionCondition w t =
     ((\<not> isTaxiing (aircraft0 w t) \<and> \<not> isTaxiing (aircraft1 w t)) \<and>
      rwy_dep (aircraft0 w t) \<noteq> None \<and>
      rwy_dep (aircraft0 w t) \<noteq> rwy_dep (aircraft1 w t) \<and>
      getRunway (airport_get w) (rwy_dep (aircraft1 w t)) =
        getRunway (airport_get w) (rwy_dep (aircraft0 w t)) \<and>
      distance t < 10)"

definition checkRunwayCollision :: "world \<times> tracker \<Rightarrow> world \<times> tracker" where
  "checkRunwayCollision s =
     (case s of (w, t) \<Rightarrow>
        if runwayCollisionCondition w t then
          (if \<not> truthy (conflicts t) ''runwayCollision'' then
             (let t' = t\<lparr>conflicts := (conflicts t)(''runwayCollision'' \<mapsto> True)\<rparr>;
                  w1 = ui_log True
                         (getCallsign (aircraft0 w t)
                           @ '' appears on a collision course with ''
                           @ getCallsign (aircraft1 w t)
                           @ '' on the same runway'') w;
                  w2 = w1\<lparr>score_warning := score_warning w1 + 1\<rparr>
              in (w2, t'))
           else (w, t))
        else (w, t\<lparr>conflicts := (conflicts t)(''runwayCollision'' \<mapsto> False)\<rparr>))"

text \<open>The chain of \<^verbatim>\<open>if\<close>s on \<^verbatim>\<open>feetBetween\<close>; the variable keeps 5.556 when no
  branch assigns it.\<close>

definition parallelLatSepMin :: "real \<Rightarrow> real" where
  "parallelLatSepMin feetBetween =
     (if feetBetween < 2500 then 5.556
      else if 2500 \<le> feetBetween \<and> feetBetween \<le> 3600 then 1.852
      else if 3600 < feetBetween \<and> feetBetween \<le> 4300 then 2.778
      else if 4300 < feetBetween \<and> feetBetween \<le> 9000 then 3.704
      else if feetBetween > 9000 then 5.556
      else 5.556)"

text \<open>\<^verbatim>\<open>airport_get().metadata.rwy[a1.rwy_arr][a2.rwy_arr]\<close> followed by the read of
  \<^verbatim>\<open>.parallel\<close>: indexing \<^verbatim>\<open>undefined\<close> and reading a property of \<^verbatim>\<open>undefined\<close> both
  throw a TypeError.\<close>

definition runwayRelationshipOf :: "world \<Rightarrow> string option \<Rightarrow> string option \<Rightarrow> error + runwayRelationship" where
  "runwayRelationshipOf w r1 r2 =
     (case metadata_rwy (airport_get w) (propertyKey r1) of
        None \<Rightarrow> Inl TypeError
      | Some row \<Rightarrow>
          (case row (propertyKey r2) of
             None \<Rightarrow> Inl TypeError
           | Some rel \<Rightarrow> Inr rel))"

text \<open>The first part of \<^verbatim>\<open>checkProximity\<close> after the altitude test: the pair
  (\<^verbatim>\<open>applicableLatSepMin\<close>, \<^verbatim>\<open>disableNotices\<close>).\<close>

definition separationMinimum :: "world \<Rightarrow> tracker \<Rightarrow> error + (real \<times> bool)" where
  "separationMinimum w t =
     (let a1 = aircraft0 w t; a2 = aircraft1 w t in
      if (isPrecisionGuided a1 \<and> isPrecisionGuided a2) \<and> rwy_arr a1 \<noteq> rwy_arr a2 then
        (case runwayRelationshipOf w (rwy_arr a1) (rwy_arr a2) of
           Inl e \<Rightarrow> Inl e
         | Inr runwayRelationship \<Rightarrow>
             if parallel runwayRelationship then
               Inr (parallelLatSepMin (km_ft (lateral_dist runwayRelationship)), True)
             else Inr (5.556, False))
      else Inr (5.556, False))"

text \<open>\<^verbatim>\<open>det\<close>, \<^verbatim>\<open>u\<close> and \<^verbatim>\<open>v\<close> of the ray intersection.\<close>

definition det :: "vec \<Rightarrow> vec \<Rightarrow> real" where
  "det ad bd = fst bd * snd ad - snd bd * fst ad"

definition rayU :: "aircraft_model \<Rightarrow> aircraft_model \<Rightarrow> real" where
  "rayU a1 a2 =
     (let bd = vturn (groundTrack a2);
          dx = fst (position a2) - fst (position a1);
          dy = snd (position a2) - snd (position a1)
      in dy * fst bd - dx * snd bd)"

definition rayV :: "aircraft_model \<Rightarrow> aircraft_model \<Rightarrow> real" where
  "rayV a1 a2 =
     (let ad = vturn (groundTrack a1);
          dx = fst (position a2) - fst (position a1);
          dy = snd (position a2) - snd (position a1)
      in dy * fst ad - dx * snd ad)"

text \<open>The "passing and diverging" rules: the pair (\<^verbatim>\<open>conflict\<close>, \<^verbatim>\<open>violation\<close>) after
  them.\<close>

definition passingAndDiverging :: "world \<Rightarrow> tracker \<Rightarrow> bool \<times> bool \<Rightarrow> bool \<times> bool" where
  "passingAndDiverging w t cv =
     (let a1 = aircraft0 w t; a2 = aircraft1 w t in
      if fst cv then
        (let hdg_difference = \<bar>angle_offset (groundTrack a1) (groundTrack a2)\<bar> in
         if hdg_difference \<ge> degreesToRadians 15 then
           (if hdg_difference > degreesToRadians 165 then
              (if distance_delta t > 0 then (False, False) else cv)
            else
              (let d = det (vturn (groundTrack a1)) (vturn (groundTrack a2));
                   u = js_div (rayU a1 a2) d;
                   v = js_div (rayV a1 a2) d
               in if js_neg u \<or> js_neg v then (False, False) else cv))
         else cv)
      else cv)"

definition checkProximity :: "world \<times> tracker \<Rightarrow> (world \<times> tracker) outcome" where
  "checkProximity s =
     (case s of (w, t) \<Rightarrow>
        if altitude t \<ge> 1000 then
          Returns (w, t\<lparr>conflicts := (conflicts t)(''proximityConflict'' \<mapsto> False,
                                                   ''proximityViolation'' \<mapsto> False)\<rparr>)
        else
          (case separationMinimum w t of
             Inl e \<Rightarrow> Throws e (w, t)
           | Inr (applicableLatSepMin, disableNotices) \<Rightarrow>
               (let violation = (distance t < applicableLatSepMin);
                    conflict = ((distance t < applicableLatSepMin + 1.852 \<and> \<not> disableNotices)
                                \<or> violation);
                    cv = passingAndDiverging w t (conflict, violation);
                    t1 = t\<lparr>conflicts := (conflicts t)(''proximityConflict'' \<mapsto> fst cv)\<rparr>;
                    t2 = t1\<lparr>violations := (violations t1)(''proximityViolation'' \<mapsto> snd cv)\<rparr>
                in Returns (w, t2))))"

definition update :: "world \<times> tracker \<Rightarrow> (world \<times> tracker) outcome" where
  "update s =
     (case s of (w, t) \<Rightarrow>
        if collided t then Returns (w, t)
        else
          (let d = distance t;
               t1 = t\<lparr>distance := vlen (vsub (position (aircraft0 w t)) (position (aircraft1 w t)))\<rparr>;
               t2 = t1\<lparr>distance_delta := distance t1 - d\<rparr>;
               t3 = t2\<lparr>altitude := \<bar>ac_altitude (aircraft0 w t) - ac_altitude (aircraft1 w t)\<bar>\<rparr>
           in if distance t3 > 14.816 then Returns (remove (w, t3))
              else
                (let s1 = checkCollision (w, t3);
                     s2 = checkRunwayCollision s1;
                     w2 = fst s2;
                     t4 = snd s2;
                     airportElevation = elevation (airport_get w2)
                 in if ac_altitude (aircraft0 w2 t4) - airportElevation < 990 \<or>
                       ac_altitude (aircraft1 w2 t4) - airportElevation < 990
                    then Returns s2
                    else if game_time w2 - takeoffTime (aircraft0 w2 t4) < 60 \<or>
                            game_time w2 - takeoffTime (aircraft0 w2 t4) < 60
                    then Returns s2
                    else checkProximity s2)))"

text \<open>The constructor: the tracker as first built, registered with both aircraft, then
  updated once.\<close>

definition init :: "world \<Rightarrow> handle \<Rightarrow> handle \<Rightarrow> (world \<times> tracker) outcome" where
  "init w first second =
     (let t = \<lparr>aircraft = (first, second),
               distance = vlen (vsub (position (aircraft_of w first)) (position (aircraft_of w second))),
               distance_delta = 0,
               altitude = \<bar>ac_altitude (aircraft_of w first) - ac_altitude (aircraft_of w second)\<bar>,
               collided = False,
               conflicts = Map.empty,
               violations = Map.empty\<rparr>;
          w1 = emit (AddConflict first second) w;
          w2 = emit (AddConflict second first) w1
      in update (w2, t))"

subsection \<open>Concrete scenarios\<close>

text \<open>An airborne aircraft at the origin, heading north at 5000 ft, long after
  take-off; the scenarios below change single fields of it.\<close>

definition plane :: aircraft_model where
  "plane =
     \<lparr>position = (0, 0), ac_altitude = 5000, groundTrack = 0,
      rwy_dep = None, rwy_arr = None, takeoffTime = 0, hit = False,
      getCallsign = ''AAL1'', isLanded = False, isTaxiing = False,
      isVisible = True, isPrecisionGuided = False\<rparr>"

text \<open>An airport at sea level with one runway pair, 09 and 27, the two ends of one
  strip, and an empty relationship table.\<close>

definition field :: airport_model where
  "field =
     \<lparr>elevation = 0, runways = [(0, 1)],
      getRunway = (\<lambda>r. if r = Some ''09'' then Some 0
                        else if r = Some ''27'' then Some 1 else None),
      metadata_rwy = Map.empty\<rparr>"

text \<open>The world holding aircraft \<open>a\<close> under reference 0 and \<open>b\<close> under every other
  reference, at game time 1000.\<close>

definition skies :: "aircraft_model \<Rightarrow> aircraft_model \<Rightarrow> airport_model \<Rightarrow> world" where
  "skies a b ap =
     \<lparr>aircraft_of = (\<lambda>h. if h = 0 then a else b), airport_get = ap,
      game_time = 1000, score_hit = 0, score_warning = 0, events = []\<rparr>"

text \<open>A fresh tracker of the aircraft 0 and 1 with the given distance and vertical
  separation.\<close>

definition pairing :: "real \<Rightarrow> real \<Rightarrow> tracker" where
  "pairing d alt =
     \<lparr>aircraft = (0, 1), distance = d, distance_delta = 0, altitude = alt,
      collided = False, conflicts = Map.empty, violations = Map.empty\<rparr>"

text \<open>An aircraft established on the precision approach to runway \<open>r\<close>, an aircraft
  assigned the departure runway \<open>r\<close>, and an aircraft at \<open>(x, 4)\<close> heading east.\<close>

definition approach :: "string \<Rightarrow> aircraft_model" where
  "approach r = plane\<lparr>rwy_arr := Some r, isPrecisionGuided := True\<rparr>"

definition departure :: "string \<Rightarrow> aircraft_model" where
  "departure r = plane\<lparr>rwy_dep := Some r\<rparr>"

definition eastbound :: "real \<Rightarrow> aircraft_model" where
  "eastbound x = plane\<lparr>position := (x, 4), groundTrack := pi / 2\<rparr>"

text \<open>A relationship table with the single entry 09L, 09R.\<close>

definition relations :: "bool \<Rightarrow> real \<Rightarrow> (string \<rightharpoonup> (string \<rightharpoonup> runwayRelationship))" where
  "relations par d = [''09L'' \<mapsto> [''09R'' \<mapsto> \<lparr>parallel = par, lateral_dist = d\<rparr>]]"

section \<open>Properties\<close>

subsection \<open>Facts about the helpers and the scenarios\<close>

lemma vlen_vsub_same_x: "vlen (vsub (x, y1) (x, y2)) = \<bar>y1 - y2\<bar>"
  by (simp add: vlen_def vsub_def)

lemma pairing_fields [simp]:
  "aircraft (pairing d alt) = (0, 1)"
  "distance (pairing d alt) = d"
  "distance_delta (pairing d alt) = 0"
  "altitude (pairing d alt) = alt"
  "collided (pairing d alt) = False"
  "conflicts (pairing d alt) = Map.empty"
  "violations (pairing d alt) = Map.empty"
  by (simp_all add: pairing_def)

lemma skies_fields [simp]:
  "airport_get (skies a b ap) = ap"
  "game_time (skies a b ap) = 1000"
  "score_hit (skies a b ap) = 0"
  "score_warning (skies a b ap) = 0"
  "events (skies a b ap) = []"
  by (simp_all add: skies_def)

lemma aircraft_skies [simp]:
  "aircraft0 (skies a b ap) (pairing d alt) = a"
  "aircraft1 (skies a b ap) (pairing d alt) = b"
  by (simp_all add: aircraft0_def aircraft1_def skies_def pairing_def)

lemma plane_fields [simp]:
  "position plane = (0, 0)" "ac_altitude plane = 5000" "groundTrack plane = 0"
  "rwy_dep plane = None" "rwy_arr plane = None" "takeoffTime plane = 0"
  "hit plane = False" "getCallsign plane = ''AAL1''" "isLanded plane = False"
  "isTaxiing plane = False" "isVisible plane = True" "isPrecisionGuided plane = False"
  by (simp_all add: plane_def)

lemma field_fields [simp]:
  "elevation field = 0" "runways field = [(0, 1)]"
  "getRunway field r = (if r = Some ''09'' then Some 0
                        else if r = Some ''27'' then Some 1 else None)"
  "metadata_rwy field = Map.empty"
  by (simp_all add: field_def)

lemma approach_fields [simp]:
  "position (approach r) = (0, 0)" "groundTrack (approach r) = 0"
  "rwy_arr (approach r) = Some r" "isPrecisionGuided (approach r) = True"
  by (simp_all add: approach_def)

lemma departure_fields [simp]:
  "rwy_dep (departure r) = Some r" "isTaxiing (departure r) = False"
  "getCallsign (departure r) = ''AAL1''"
  by (simp_all add: departure_def)

lemma eastbound_fields [simp]:
  "position (eastbound x) = (x, 4)" "groundTrack (eastbound x) = pi / 2"
  "rwy_arr (eastbound x) = None" "isPrecisionGuided (eastbound x) = False"
  by (simp_all add: eastbound_def)

lemma propertyKey_Some [simp]: "propertyKey (Some r) = r"
  by (simp add: propertyKey_def)

lemma pi_not_le_zero: "\<not> pi \<le> 0"
  using pi_gt_zero by linarith

lemma angle_offset_same [simp]: "angle_offset a a = 0"
  by (simp add: angle_offset_def)

text \<open>Two aircraft on the same track: the passing and diverging rules change nothing.\<close>

lemma passingAndDiverging_same_track:
  "groundTrack (aircraft0 w t) = groundTrack (aircraft1 w t) \<Longrightarrow>
   passingAndDiverging w t cv = cv"
  by (simp add: passingAndDiverging_def degreesToRadians_def pi_not_le_zero Let_def)

lemma separationMinimum_baseline:
  "\<not> isPrecisionGuided (aircraft0 w t) \<Longrightarrow> separationMinimum w t = Inr (5.556, False)"
  by (simp add: separationMinimum_def)

text \<open>The offset of two tracks differs from their difference by whole turns, so both
  have the same sine; the determinant of two unit track vectors is that sine.\<close>

lemma sin_minus_turns: "sin (x - 2 * pi * of_int n) = sin x"
  by (simp add: sin_diff)

lemma sin_minus_full_turn: "sin (x - 2 * pi) = sin x"
  using sin_periodic [of "x - 2 * pi"] by simp

lemma sin_angle_offset: "sin (angle_offset a b) = sin (a - b)"
  by (simp add: angle_offset_def Let_def sin_minus_full_turn sin_minus_turns)

lemma det_vturn: "det (vturn a) (vturn b) = sin (b - a)"
  by (simp add: det_def vturn_def sin_diff)

lemma sin_nonzero_between:
  assumes "0 < \<bar>x\<bar>" and "\<bar>x\<bar> < pi"
  shows "sin x \<noteq> 0"
proof (cases "0 < x")
  case True
  with assms have "0 < sin x" by (intro sin_gt_zero) auto
  then show ?thesis by simp
next
  case False
  with assms have "0 < sin (- x)" by (intro sin_gt_zero) auto
  then show ?thesis by simp
qed

lemma det_nonzero_crossing:
  assumes "degreesToRadians 15 \<le> \<bar>angle_offset a b\<bar>"
    and "\<bar>angle_offset a b\<bar> \<le> degreesToRadians 165"
  shows "det (vturn a) (vturn b) \<noteq> 0"
proof -
  have "0 < degreesToRadians 15" and "degreesToRadians 165 < pi"
    by (simp_all add: degreesToRadians_def)
  with assms have "sin (angle_offset a b) \<noteq> 0"
    by (intro sin_nonzero_between) linarith+
  then have "sin (a - b) \<noteq> 0"
    by (simp add: sin_angle_offset)
  moreover have "sin (b - a) = - sin (a - b)"
    using sin_minus [of "a - b"] by simp
  ultimately show ?thesis
    by (simp add: det_vturn)
qed

text \<open>North against east is a quarter turn.\<close>

lemma angle_offset_north_east: "angle_offset 0 (pi / 2) = - (pi / 2)"
proof -
  have "\<lfloor>(0 - pi / 2) / (2 * pi)\<rfloor> = \<lfloor>- (1 / 4) :: real\<rfloor>"
    by simp
  also have "\<dots> = - 1"
    by (simp add: floor_eq_iff)
  finally show ?thesis
    using pi_gt_zero by (simp add: angle_offset_def Let_def)
qed

lemma quarter_turn_is_crossing:
  "degreesToRadians 15 \<le> \<bar>angle_offset 0 (pi / 2)\<bar>"
  "\<bar>angle_offset 0 (pi / 2)\<bar> \<le> degreesToRadians 165"
  using pi_gt_zero by (simp_all add: angle_offset_north_east degreesToRadians_def)

text \<open>Cramer's rule for the two ray parameters.\<close>

lemma ray_parameters_solve:
  fixes a0 a1 b0 b1 dx dy :: real
  assumes "b0 * a1 - b1 * a0 \<noteq> 0"
  shows "((dy * b0 - dx * b1) / (b0 * a1 - b1 * a0)) * a0
           = dx + ((dy * a0 - dx * a1) / (b0 * a1 - b1 * a0)) * b0"
    and "((dy * b0 - dx * b1) / (b0 * a1 - b1 * a0)) * a1
           = dy + ((dy * a0 - dx * a1) / (b0 * a1 - b1 * a0)) * b1"
  using assms by (simp_all add: field_simps)

subsection \<open>The freeze after a collision\<close>

text \<open>
  C3. Once \<open>collided\<close> is true, \<open>update\<close> returns at once: the tracker (distance,
  distance_delta, altitude, conflicts, violations) and the world (no removal request,
  no notice, no counter) are what they were.
\<close>

theorem update_collided_frozen:
  "collided t \<Longrightarrow> update (w, t) = Returns (w, t)"
  by (simp add: update_def)

theorem update_collided_frozen_witness:
  "collided ((pairing 1 100)\<lparr>collided := True\<rparr>) \<and>
   update (skies plane plane field, (pairing 1 100)\<lparr>collided := True\<rparr>)
     = Returns (skies plane plane field, (pairing 1 100)\<lparr>collided := True\<rparr>)"
  using update_collided_frozen [of "(pairing 1 100)\<lparr>collided := True\<rparr>" "skies plane plane field"]
  by simp

subsection \<open>Leaving the bounding box\<close>

text \<open>
  C6. For a tracker that has not collided, when the distance just recomputed from the
  two positions exceeds 14.816 km, \<open>update\<close> returns after calling \<^verbatim>\<open>removeConflict\<close> on
  aircraft 0 with aircraft 1 and on aircraft 1 with aircraft 0. Nothing else in the world
  changes (no notice, no counter, no hit flag, no queue removal), and of the tracker only
  distance, distance_delta and altitude are written: \<open>collided\<close>, \<open>conflicts\<close> and
  \<open>violations\<close> are as before.
\<close>

theorem update_beyond_bounding_box:
  assumes "\<not> collided t"
    and "vlen (vsub (position (aircraft0 w t)) (position (aircraft1 w t))) > 14.816"
  shows "\<exists>t'. update (w, t) =
            Returns (w\<lparr>events := events w @
                        [RemoveConflict (fst (aircraft t)) (snd (aircraft t)),
                         RemoveConflict (snd (aircraft t)) (fst (aircraft t))]\<rparr>, t')
          \<and> distance t' = vlen (vsub (position (aircraft0 w t)) (position (aircraft1 w t)))
          \<and> distance_delta t' = distance t' - distance t
          \<and> altitude t' = \<bar>ac_altitude (aircraft0 w t) - ac_altitude (aircraft1 w t)\<bar>
          \<and> aircraft t' = aircraft t
          \<and> collided t' = collided t
          \<and> conflicts t' = conflicts t
          \<and> violations t' = violations t"
  using assms by (simp add: update_def remove_def emit_def Let_def)

theorem update_beyond_bounding_box_witness:
  "\<not> collided (pairing 1 100) \<and>
   vlen (vsub (position (aircraft0 (skies plane (plane\<lparr>position := (0, 15)\<rparr>) field) (pairing 1 100)))
              (position (aircraft1 (skies plane (plane\<lparr>position := (0, 15)\<rparr>) field) (pairing 1 100)))) > 14.816 \<and>
   (\<exists>t'. update (skies plane (plane\<lparr>position := (0, 15)\<rparr>) field, pairing 1 100) =
            Returns ((skies plane (plane\<lparr>position := (0, 15)\<rparr>) field)
                       \<lparr>events := [RemoveConflict 0 1, RemoveConflict 1 0]\<rparr>, t')
          \<and> distance t' = 15 \<and> distance_delta t' = 14 \<and> altitude t' = 0
          \<and> collided t' = False \<and> conflicts t' = Map.empty \<and> violations t' = Map.empty)"
  using update_beyond_bounding_box [of "pairing 1 100" "skies plane (plane\<lparr>position := (0, 15)\<rparr>) field"]
  by (auto simp add: vlen_vsub_same_x plane_def)

subsection \<open>Collision\<close>

text \<open>
  C7. On a tracker that has not collided, \<open>checkCollision\<close> sets \<open>collided\<close> exactly when
  neither aircraft is landed, the distance is under 0.05 km, the vertical separation is
  under 160 ft and both aircraft are visible. At 0.04 km and 150 ft, both aircraft
  visible and not landed, it sets \<open>collided\<close>; at 0.06 km and 150 ft it does not.
\<close>

theorem checkCollision_sets_collided_iff:
  "\<not> collided t \<Longrightarrow>
   collided (snd (checkCollision (w, t))) \<longleftrightarrow>
     (\<not> isLanded (aircraft0 w t) \<and> \<not> isLanded (aircraft1 w t) \<and>
      distance t < 0.05 \<and> altitude t < 160 \<and>
      isVisible (aircraft0 w t) \<and> isVisible (aircraft1 w t))"
  by (auto simp add: checkCollision_def collisionCondition_def Let_def)

theorem checkCollision_sets_collided_iff_witness:
  "\<not> collided (pairing 0.04 150) \<and> \<not> collided (pairing 0.06 150) \<and>
   collided (snd (checkCollision (skies plane plane field, pairing 0.04 150))) \<and>
   \<not> collided (snd (checkCollision (skies plane plane field, pairing 0.06 150)))"
  using checkCollision_sets_collided_iff [of "pairing 0.04 150" "skies plane plane field"]
        checkCollision_sets_collided_iff [of "pairing 0.06 150" "skies plane plane field"]
  by (simp add: plane_def)

subsection \<open>Vertical separation\<close>

text \<open>
  C1. With a vertical separation of at least 1000 ft, \<open>checkProximity\<close>, run as the last
  step of \<open>update\<close>, should leave \<open>conflicts.proximityConflict\<close> and
  \<open>violations.proximityViolation\<close> false whatever they were. Evaluated on a tracker
  whose two flags were true on the previous tick and whose aircraft are now 1500 ft
  apart vertically: the early return writes the key \<open>proximityViolation\<close> of
  \<open>conflicts\<close>, and \<open>violations.proximityViolation\<close> stays true.
\<close>

theorem update_vertical_separation_keeps_violation:
  "update (skies plane (plane\<lparr>position := (0, 4), ac_altitude := 6500\<rparr>) field,
           (pairing 4 500)\<lparr>conflicts := [''proximityConflict'' \<mapsto> True],
                            violations := [''proximityViolation'' \<mapsto> True]\<rparr>)
   = Returns (skies plane (plane\<lparr>position := (0, 4), ac_altitude := 6500\<rparr>) field,
              \<lparr>aircraft = (0, 1), distance = 4, distance_delta = 0, altitude = 1500,
               collided = False,
               conflicts = [''proximityConflict'' \<mapsto> True, ''runwayCollision'' \<mapsto> False,
                            ''proximityConflict'' \<mapsto> False, ''proximityViolation'' \<mapsto> False],
               violations = [''proximityViolation'' \<mapsto> True]\<rparr>)"
  by (simp add: update_def checkCollision_def collisionCondition_def checkRunwayCollision_def
        runwayCollisionCondition_def checkProximity_def aircraft0_def aircraft1_def
        vlen_vsub_same_x Let_def plane_def skies_def pairing_def field_def)

subsection \<open>The first minute of flight\<close>

text \<open>
  C2. After the low-altitude gate, \<open>update\<close> should return without running
  \<open>checkProximity\<close> when either aircraft took off less than 60 seconds ago. Evaluated
  at game time 1000 on two aircraft 4 km apart at the same altitude. When only aircraft 1
  took off at 990, \<open>checkProximity\<close> runs and records a conflict and a violation; when
  only aircraft 0 did, \<open>update\<close> returns before it.
\<close>

theorem update_second_aircraft_just_departed:
  "game_time (skies plane (plane\<lparr>position := (0, 4), takeoffTime := 990\<rparr>) field)
     - takeoffTime (aircraft1 (skies plane (plane\<lparr>position := (0, 4), takeoffTime := 990\<rparr>) field) (pairing 4 0)) < 60 \<and>
   update (skies plane (plane\<lparr>position := (0, 4), takeoffTime := 990\<rparr>) field, pairing 4 0)
   = Returns (skies plane (plane\<lparr>position := (0, 4), takeoffTime := 990\<rparr>) field,
              \<lparr>aircraft = (0, 1), distance = 4, distance_delta = 0, altitude = 0,
               collided = False,
               conflicts = [''runwayCollision'' \<mapsto> False, ''proximityConflict'' \<mapsto> True],
               violations = [''proximityViolation'' \<mapsto> True]\<rparr>) \<and>
   update (skies (plane\<lparr>takeoffTime := 990\<rparr>) (plane\<lparr>position := (0, 4)\<rparr>) field, pairing 4 0)
   = Returns (skies (plane\<lparr>takeoffTime := 990\<rparr>) (plane\<lparr>position := (0, 4)\<rparr>) field,
              \<lparr>aircraft = (0, 1), distance = 4, distance_delta = 0, altitude = 0,
               collided = False,
               conflicts = [''runwayCollision'' \<mapsto> False],
               violations = Map.empty\<rparr>)"
  by (simp add: update_def checkCollision_def collisionCondition_def checkRunwayCollision_def
        runwayCollisionCondition_def checkProximity_def separationMinimum_def
        passingAndDiverging_def degreesToRadians_def aircraft0_def aircraft1_def
        vlen_vsub_same_x pi_not_le_zero Let_def plane_def skies_def pairing_def field_def)

subsection \<open>Precision approaches and the relationship table\<close>

text \<open>
  C4, as claimed: with both aircraft precision-guided on different arrival runways and
  no entry for the pair in the relationship table, \<open>checkProximity\<close> would evaluate the
  pair against 5.556 km. It does not: on the empty table it throws a TypeError and
  writes nothing.
\<close>

theorem checkProximity_missing_relationship_throws:
  "isPrecisionGuided (approach ''09L'') \<and> isPrecisionGuided (approach ''09R'') \<and>
   rwy_arr (approach ''09L'') \<noteq> rwy_arr (approach ''09R'') \<and>
   metadata_rwy field (propertyKey (rwy_arr (approach ''09L''))) = None \<and>
   checkProximity (skies (approach ''09L'') (approach ''09R'') field, pairing 4 500)
   = Throws TypeError (skies (approach ''09L'') (approach ''09R'') field, pairing 4 500)"
  by (simp add: checkProximity_def separationMinimum_def runwayRelationshipOf_def)

text \<open>
  C4, amended. Both aircraft are precision-guided on different arrival runways and are
  less than 1000 ft apart vertically. When the table has an entry for the pair that is
  not flagged parallel, \<open>checkProximity\<close> evaluates conflict and violation against the
  baseline 5.556 km with notices enabled. When the table has no entry for the pair (no
  row for the first runway, or no column for the second in that row), \<open>checkProximity\<close>
  throws a TypeError and leaves the tracker and the world as they were.
\<close>

theorem checkProximity_precision_pair:
  assumes "altitude t < 1000"
    and "isPrecisionGuided (aircraft0 w t)" and "isPrecisionGuided (aircraft1 w t)"
    and "rwy_arr (aircraft0 w t) \<noteq> rwy_arr (aircraft1 w t)"
  shows "(\<forall>row rel.
            metadata_rwy (airport_get w) (propertyKey (rwy_arr (aircraft0 w t))) = Some row \<and>
            row (propertyKey (rwy_arr (aircraft1 w t))) = Some rel \<and> \<not> parallel rel \<longrightarrow>
            separationMinimum w t = Inr (5.556, False) \<and>
            checkProximity (w, t) =
              Returns (w, t\<lparr>conflicts := (conflicts t)(''proximityConflict'' \<mapsto>
                                 fst (passingAndDiverging w t
                                        (distance t < 5.556 + 1.852 \<or> distance t < 5.556,
                                         distance t < 5.556))),
                             violations := (violations t)(''proximityViolation'' \<mapsto>
                                 snd (passingAndDiverging w t
                                        (distance t < 5.556 + 1.852 \<or> distance t < 5.556,
                                         distance t < 5.556)))\<rparr>))
       \<and> ((case metadata_rwy (airport_get w) (propertyKey (rwy_arr (aircraft0 w t))) of
              None \<Rightarrow> True
            | Some row \<Rightarrow> row (propertyKey (rwy_arr (aircraft1 w t))) = None) \<longrightarrow>
            checkProximity (w, t) = Throws TypeError (w, t))"
  using assms
  by (auto simp add: checkProximity_def separationMinimum_def runwayRelationshipOf_def Let_def
        split: option.splits)

theorem checkProximity_precision_pair_witness:
  "checkProximity (skies (approach ''09L'') (approach ''09R'')
        (field\<lparr>metadata_rwy := relations False 1\<rparr>), pairing 6 500)
     = Returns (skies (approach ''09L'') (approach ''09R'')
        (field\<lparr>metadata_rwy := relations False 1\<rparr>),
        (pairing 6 500)\<lparr>conflicts := [''proximityConflict'' \<mapsto> True],
                         violations := [''proximityViolation'' \<mapsto> False]\<rparr>)
   \<and> checkProximity (skies (approach ''09L'') (approach ''09R'') field, pairing 6 500)
     = Throws TypeError (skies (approach ''09L'') (approach ''09R'') field, pairing 6 500)"
  using checkProximity_precision_pair [of "pairing 6 500"
          "skies (approach ''09L'') (approach ''09R'') (field\<lparr>metadata_rwy := relations False 1\<rparr>)"]
        checkProximity_precision_pair [of "pairing 6 500"
          "skies (approach ''09L'') (approach ''09R'') field"]
  by (simp add: passingAndDiverging_same_track relations_def)

text \<open>
  C8. Under the parallel-approach adjustment (both aircraft precision-guided on different
  arrival runways whose table entry is flagged parallel), notices are disabled and the
  applicable minimum follows the bands of the lateral distance in feet: below 2500 ft
  5.556 km, from 2500 to 3600 ft 1.852 km, above 3600 up to 4300 ft 2.778 km, above 4300
  up to 9000 ft 3.704 km, above 9000 ft 5.556 km. At exactly 2500 ft it is 1.852 km, and
  conflict and violation are evaluated against the minimum so chosen.
\<close>

theorem parallel_approach_bands:
  assumes "altitude t < 1000"
    and "isPrecisionGuided (aircraft0 w t)" and "isPrecisionGuided (aircraft1 w t)"
    and "rwy_arr (aircraft0 w t) \<noteq> rwy_arr (aircraft1 w t)"
    and "metadata_rwy (airport_get w) (propertyKey (rwy_arr (aircraft0 w t))) = Some row"
    and "row (propertyKey (rwy_arr (aircraft1 w t))) = Some rel"
    and "parallel rel"
  shows "\<exists>m. separationMinimum w t = Inr (m, True) \<and>
           (km_ft (lateral_dist rel) < 2500 \<longrightarrow> m = 5.556) \<and>
           (km_ft (lateral_dist rel) = 2500 \<longrightarrow> m = 1.852) \<and>
           (2500 \<le> km_ft (lateral_dist rel) \<and> km_ft (lateral_dist rel) \<le> 3600 \<longrightarrow> m = 1.852) \<and>
           (3600 < km_ft (lateral_dist rel) \<and> km_ft (lateral_dist rel) \<le> 4300 \<longrightarrow> m = 2.778) \<and>
           (4300 < km_ft (lateral_dist rel) \<and> km_ft (lateral_dist rel) \<le> 9000 \<longrightarrow> m = 3.704) \<and>
           (9000 < km_ft (lateral_dist rel) \<longrightarrow> m = 5.556) \<and>
           checkProximity (w, t) =
             Returns (w, t\<lparr>conflicts := (conflicts t)(''proximityConflict'' \<mapsto>
                                fst (passingAndDiverging w t (distance t < m, distance t < m))),
                            violations := (violations t)(''proximityViolation'' \<mapsto>
                                snd (passingAndDiverging w t (distance t < m, distance t < m)))\<rparr>)"
  using assms
  by (simp add: checkProximity_def separationMinimum_def runwayRelationshipOf_def
        parallelLatSepMin_def Let_def)

theorem parallel_approach_bands_witness:
  "km_ft 0.762 = 2500 \<and>
   separationMinimum (skies (approach ''09L'') (approach ''09R'')
       (field\<lparr>metadata_rwy := relations True 0.762\<rparr>)) (pairing 2 500) = Inr (1.852, True) \<and>
   checkProximity (skies (approach ''09L'') (approach ''09R'')
       (field\<lparr>metadata_rwy := relations True 0.762\<rparr>), pairing 2 500)
     = Returns (skies (approach ''09L'') (approach ''09R'')
                  (field\<lparr>metadata_rwy := relations True 0.762\<rparr>),
                (pairing 2 500)\<lparr>conflicts := [''proximityConflict'' \<mapsto> False],
                                 violations := [''proximityViolation'' \<mapsto> False]\<rparr>)"
proof -
  let ?rel = "\<lparr>parallel = True, lateral_dist = 0.762\<rparr>"
  let ?w = "skies (approach ''09L'') (approach ''09R'') (field\<lparr>metadata_rwy := relations True 0.762\<rparr>)"
  let ?t = "pairing 2 500"
  have ft: "km_ft (lateral_dist ?rel) = 2500"
    by (simp add: km_ft_def)
  have h1: "altitude ?t < 1000"
    and h2: "isPrecisionGuided (aircraft0 ?w ?t)"
    and h3: "isPrecisionGuided (aircraft1 ?w ?t)"
    and h4: "rwy_arr (aircraft0 ?w ?t) \<noteq> rwy_arr (aircraft1 ?w ?t)"
    and h5: "metadata_rwy (airport_get ?w) (propertyKey (rwy_arr (aircraft0 ?w ?t)))
               = Some [''09R'' \<mapsto> ?rel]"
    and h6: "[''09R'' \<mapsto> ?rel] (propertyKey (rwy_arr (aircraft1 ?w ?t))) = Some ?rel"
    and h7: "parallel ?rel"
    by (simp_all add: relations_def)
  from parallel_approach_bands [OF h1 h2 h3 h4 h5 h6 h7]
  obtain m where sm: "separationMinimum ?w ?t = Inr (m, True)"
    and at: "km_ft (lateral_dist ?rel) = 2500 \<longrightarrow> m = 1.852"
    and cp: "checkProximity (?w, ?t) =
             Returns (?w, ?t\<lparr>conflicts := (conflicts ?t)(''proximityConflict'' \<mapsto>
                                fst (passingAndDiverging ?w ?t (distance ?t < m, distance ?t < m))),
                            violations := (violations ?t)(''proximityViolation'' \<mapsto>
                                snd (passingAndDiverging ?w ?t (distance ?t < m, distance ?t < m)))\<rparr>)"
    by blast
  from at ft have m: "m = 1.852"
    by blast
  have pd: "passingAndDiverging ?w ?t cv = cv" for cv
    by (rule passingAndDiverging_same_track) simp
  have "km_ft 0.762 = 2500"
    using ft by simp
  moreover have "separationMinimum ?w ?t = Inr (1.852, True)"
    using sm m by simp
  moreover have "checkProximity (?w, ?t) =
      Returns (?w, ?t\<lparr>conflicts := [''proximityConflict'' \<mapsto> False],
                       violations := [''proximityViolation'' \<mapsto> False]\<rparr>)"
    unfolding cp pd m by simp
  ultimately show ?thesis
    by blast
qed

subsection \<open>Runway collision course\<close>

text \<open>
  C5. A runway lookup without a match for either aircraft's departure runway should
  make \<open>checkRunwayCollision\<close> set \<open>runwayCollision\<close> to false, with no notice and no
  warning counted, also when both lookups fail. Evaluated on an airport that knows
  neither 04 nor 22, with the aircraft 5 km apart: the two failed lookups compare equal,
  the conflict is raised, the notice "on the same runway" is logged and the warning is
  counted. The guard on a missing runway is one-sided: with aircraft 0 unassigned and
  aircraft 1 on the unknown runway 22 the check is silent, with the two aircraft
  exchanged it is raised.
\<close>

theorem checkRunwayCollision_both_lookups_fail:
  "getRunway field (rwy_dep (departure ''04'')) = None \<and>
   getRunway field (rwy_dep (departure ''22'')) = None \<and>
   rwy_dep (departure ''04'') \<noteq> rwy_dep (departure ''22'') \<and>
   distance (pairing 5 0) < 10 \<and>
   checkRunwayCollision (skies (departure ''04'') (departure ''22'') field, pairing 5 0)
   = ((skies (departure ''04'') (departure ''22'') field)
        \<lparr>score_warning := 1,
         events := [UiLog True ''AAL1 appears on a collision course with AAL1 on the same runway'']\<rparr>,
      (pairing 5 0)\<lparr>conflicts := [''runwayCollision'' \<mapsto> True]\<rparr>) \<and>
   getRunway field (rwy_dep plane) = None \<and>
   checkRunwayCollision (skies plane (departure ''22'') field, pairing 5 0)
   = (skies plane (departure ''22'') field,
      (pairing 5 0)\<lparr>conflicts := [''runwayCollision'' \<mapsto> False]\<rparr>) \<and>
   checkRunwayCollision (skies (departure ''22'') plane field, pairing 5 0)
   = ((skies (departure ''22'') plane field)
        \<lparr>score_warning := 1,
         events := [UiLog True ''AAL1 appears on a collision course with AAL1 on the same runway'']\<rparr>,
      (pairing 5 0)\<lparr>conflicts := [''runwayCollision'' \<mapsto> True]\<rparr>)"
  by (simp add: checkRunwayCollision_def runwayCollisionCondition_def truthy_def ui_log_def
        emit_def Let_def)

text \<open>
  When the lookup fails for exactly one of the two departure runway identifiers, the two
  results differ and \<open>checkRunwayCollision\<close> sets \<open>conflicts.runwayCollision\<close> to false,
  emits no notice and increments no counter.
\<close>

lemma checkRunwayCollision_one_lookup_fails:
  assumes "(getRunway (airport_get w) (rwy_dep (aircraft0 w t)) = None)
           \<noteq> (getRunway (airport_get w) (rwy_dep (aircraft1 w t)) = None)"
  shows "checkRunwayCollision (w, t) =
           (w, t\<lparr>conflicts := (conflicts t)(''runwayCollision'' \<mapsto> False)\<rparr>)"
  using assms by (auto simp add: checkRunwayCollision_def runwayCollisionCondition_def)

lemma checkRunwayCollision_one_lookup_fails_example:
  "getRunway field (rwy_dep (departure ''09'')) \<noteq> None \<and>
   getRunway field (rwy_dep (departure ''22'')) = None \<and>
   checkRunwayCollision (skies (departure ''09'') (departure ''22'') field, pairing 5 0)
   = (skies (departure ''09'') (departure ''22'') field,
      (pairing 5 0)\<lparr>conflicts := [''runwayCollision'' \<mapsto> False]\<rparr>)"
  using checkRunwayCollision_one_lookup_fails [of "skies (departure ''09'') (departure ''22'') field" "pairing 5 0"]
  by simp

subsection \<open>Crossing courses\<close>

text \<open>
  C10. Whenever the absolute angular difference of the two ground tracks lies between
  15 and 165 degrees, the determinant of the two unit track vectors is not zero, so both
  quotients of the ray-parameter computation are finite numbers.
\<close>

theorem crossing_determinant_nonzero:
  assumes "degreesToRadians 15 \<le> \<bar>angle_offset (groundTrack a1) (groundTrack a2)\<bar>"
    and "\<bar>angle_offset (groundTrack a1) (groundTrack a2)\<bar> \<le> degreesToRadians 165"
  shows "det (vturn (groundTrack a1)) (vturn (groundTrack a2)) \<noteq> 0 \<and>
         js_div (rayU a1 a2) (det (vturn (groundTrack a1)) (vturn (groundTrack a2)))
           = Finite (rayU a1 a2 / det (vturn (groundTrack a1)) (vturn (groundTrack a2))) \<and>
         js_div (rayV a1 a2) (det (vturn (groundTrack a1)) (vturn (groundTrack a2)))
           = Finite (rayV a1 a2 / det (vturn (groundTrack a1)) (vturn (groundTrack a2)))"
  using det_nonzero_crossing [OF assms] by (simp add: js_div_def)

theorem crossing_determinant_nonzero_witness:
  "degreesToRadians 15 \<le> \<bar>angle_offset (groundTrack plane) (groundTrack (eastbound 3))\<bar> \<and>
   \<bar>angle_offset (groundTrack plane) (groundTrack (eastbound 3))\<bar> \<le> degreesToRadians 165 \<and>
   det (vturn (groundTrack plane)) (vturn (groundTrack (eastbound 3))) = 1 \<and>
   det (vturn (groundTrack plane)) (vturn (groundTrack (eastbound 3))) \<noteq> 0"
  using crossing_determinant_nonzero [of plane "eastbound 3"]
  by (simp add: quarter_turn_is_crossing det_def vturn_def)

text \<open>
  C9. In the crossing-courses branch (vertical separation under 1000 ft, conflict
  provisionally true, angular difference of the tracks between 15 and 165 degrees) the
  parameters \<open>u\<close> and \<open>v\<close> are the quotients by the determinant of the unit track
  vectors; they are finite and solve the ray equation
  \<open>position a1 + u * ad = position a2 + v * bd\<close>. The conflict recorded is true exactly
  when both are at least 0, and the violation keeps its value in that case; when either
  is negative both are recorded as false.
\<close>

theorem crossing_courses_ray_parameters:
  assumes "altitude t < 1000"
    and "separationMinimum w t = Inr (m, dn)"
    and "(distance t < m + 1.852 \<and> \<not> dn) \<or> distance t < m"
    and "degreesToRadians 15 \<le> \<bar>angle_offset (groundTrack (aircraft0 w t)) (groundTrack (aircraft1 w t))\<bar>"
    and "\<bar>angle_offset (groundTrack (aircraft0 w t)) (groundTrack (aircraft1 w t))\<bar> \<le> degreesToRadians 165"
  shows "let a1 = aircraft0 w t; a2 = aircraft1 w t;
             ad = vturn (groundTrack a1); bd = vturn (groundTrack a2);
             u = rayU a1 a2 / det ad bd; v = rayV a1 a2 / det ad bd
         in det ad bd \<noteq> 0 \<and>
            js_div (rayU a1 a2) (det ad bd) = Finite u \<and>
            js_div (rayV a1 a2) (det ad bd) = Finite v \<and>
            fst (position a1) + u * fst ad = fst (position a2) + v * fst bd \<and>
            snd (position a1) + u * snd ad = snd (position a2) + v * snd bd \<and>
            checkProximity (w, t) =
              Returns (w, t\<lparr>conflicts := (conflicts t)(''proximityConflict'' \<mapsto> (0 \<le> u \<and> 0 \<le> v)),
                             violations := (violations t)(''proximityViolation'' \<mapsto>
                                              (distance t < m \<and> 0 \<le> u \<and> 0 \<le> v))\<rparr>)"
proof -
  let ?a1 = "aircraft0 w t" and ?a2 = "aircraft1 w t"
  let ?ad = "vturn (groundTrack ?a1)" and ?bd = "vturn (groundTrack ?a2)"
  let ?u = "rayU ?a1 ?a2 / det ?ad ?bd" and ?v = "rayV ?a1 ?a2 / det ?ad ?bd"
  have nz: "det ?ad ?bd \<noteq> 0"
    using assms(4,5) by (rule det_nonzero_crossing)
  then have nz': "fst ?bd * snd ?ad - snd ?bd * fst ?ad \<noteq> 0"
    by (simp add: det_def)
  have divs: "js_div (rayU ?a1 ?a2) (det ?ad ?bd) = Finite ?u"
    "js_div (rayV ?a1 ?a2) (det ?ad ?bd) = Finite ?v"
    using nz by (simp_all add: js_div_def)
  have x: "fst (position ?a1) + ?u * fst ?ad = fst (position ?a2) + ?v * fst ?bd"
    using ray_parameters_solve(1) [OF nz',
        of "snd (position ?a2) - snd (position ?a1)" "fst (position ?a2) - fst (position ?a1)"]
    by (simp add: rayU_def rayV_def det_def Let_def)
  have y: "snd (position ?a1) + ?u * snd ?ad = snd (position ?a2) + ?v * snd ?bd"
    using ray_parameters_solve(2) [OF nz',
        of "snd (position ?a2) - snd (position ?a1)" "fst (position ?a2) - fst (position ?a1)"]
    by (simp add: rayU_def rayV_def det_def Let_def)
  have pd: "passingAndDiverging w t (True, distance t < m)
              = (0 \<le> ?u \<and> 0 \<le> ?v, distance t < m \<and> 0 \<le> ?u \<and> 0 \<le> ?v)"
    using assms(4,5) divs
    by (auto simp add: passingAndDiverging_def Let_def not_less)
  have cp: "checkProximity (w, t) =
              Returns (w, t\<lparr>conflicts := (conflicts t)(''proximityConflict'' \<mapsto> (0 \<le> ?u \<and> 0 \<le> ?v)),
                             violations := (violations t)(''proximityViolation'' \<mapsto>
                                              (distance t < m \<and> 0 \<le> ?u \<and> 0 \<le> ?v))\<rparr>)"
    using assms(1,2,3) by (simp add: checkProximity_def Let_def pd)
  show ?thesis
    unfolding Let_def using nz divs x y cp by simp
qed

theorem crossing_courses_ray_parameters_witness:
  "degreesToRadians 15 \<le> \<bar>angle_offset (groundTrack plane) (groundTrack (eastbound (- 3)))\<bar> \<and>
   \<bar>angle_offset (groundTrack plane) (groundTrack (eastbound (- 3)))\<bar> \<le> degreesToRadians 165 \<and>
   separationMinimum (skies plane (eastbound (- 3)) field) (pairing 5 0) = Inr (5.556, False) \<and>
   rayU plane (eastbound (- 3)) / det (vturn 0) (vturn (pi / 2)) = 4 \<and>
   rayV plane (eastbound (- 3)) / det (vturn 0) (vturn (pi / 2)) = 3 \<and>
   checkProximity (skies plane (eastbound (- 3)) field, pairing 5 0)
     = Returns (skies plane (eastbound (- 3)) field,
                (pairing 5 0)\<lparr>conflicts := [''proximityConflict'' \<mapsto> True],
                               violations := [''proximityViolation'' \<mapsto> True]\<rparr>) \<and>
   rayU plane (eastbound 3) / det (vturn 0) (vturn (pi / 2)) = 4 \<and>
   rayV plane (eastbound 3) / det (vturn 0) (vturn (pi / 2)) = - 3 \<and>
   checkProximity (skies plane (eastbound 3) field, pairing 5 0)
     = Returns (skies plane (eastbound 3) field,
                (pairing 5 0)\<lparr>conflicts := [''proximityConflict'' \<mapsto> False],
                               violations := [''proximityViolation'' \<mapsto> False]\<rparr>)"
proof -
  have uv: "rayU plane (eastbound x) = 4" "rayV plane (eastbound x) = - x"
    "det (vturn 0) (vturn (pi / 2)) = 1" for x
    by (simp_all add: rayU_def rayV_def det_def vturn_def)
  show ?thesis
    using crossing_courses_ray_parameters [of "pairing 5 0" "skies plane (eastbound (- 3)) field" "5.556" False]
          crossing_courses_ray_parameters [of "pairing 5 0" "skies plane (eastbound 3) field" "5.556" False]
    by (simp add: quarter_turn_is_crossing separationMinimum_baseline uv Let_def)
qed

end
